theory Spec2Isabelle
  imports Complex_Main "HOL-Library.Multiset"
begin

section \<open>Data model\<close>

text \<open>
  The repository's import test drives a pipeline
  \<^verbatim>\<open>parseFile -> (amountToInteger, date-fns parse/format) -> reconcileTransactions\<close>.
  Only the driver \<^verbatim>\<open>importFileWithRealTime\<close> is part of the sources at hand; it is
  embedded as written, with the functions it calls as parameters. The collaborators it
  imports (\<^verbatim>\<open>parseFile\<close>, \<^verbatim>\<open>amountToInteger\<close>, \<^verbatim>\<open>reconcileTransactions\<close>) are
  modelled further down from the specification and are marked as such.
\<close>

text \<open>An entry of the error list: the test reads \<^verbatim>\<open>errors[0].message\<close>.\<close>

record import_error =
  message :: string
  source_ref :: string

text \<open>
  What a JavaScript call can throw on the paths modelled here: a rejected amount
  (\<open>ParseError\<close>), date-fns \<^verbatim>\<open>format\<close> applied to an Invalid Date (\<open>RangeError\<close>), and
  iterating an undefined transaction list (\<open>TypeError\<close>).
\<close>

datatype exn = ParseError | RangeError | TypeError

text \<open>
  A transaction object as \<^verbatim>\<open>parseFile\<close> emits it (\<open>'a = string\<close>: the amount is still the
  source's numeric representation) and as the driver hands it on (\<open>'a = int\<close>: minor
  units). The fields other than \<open>amount\<close> and \<open>date\<close> are the ones the spread
  \<^verbatim>\<open>...trans\<close> copies: those of the test's \<^verbatim>\<open>Transaction\<close> type (its \<^verbatim>\<open>notes\<close> is
  \<open>tx_notes\<close> here), and \<open>imported_id\<close>, the unique identifier that a source format may
  provide (section 3 of the spec).
\<close>

record 'a trans =
  amount :: 'a
  date :: string
  payee_name :: string
  imported_payee :: string
  tx_notes :: "string option"
  imported_id :: "string option"

text \<open>The object \<^verbatim>\<open>{ errors, transactions }\<close>; \<open>None\<close> is an absent transaction list.\<close>

record 'a parse_result =
  errors :: "import_error list"
  transactions :: "'a trans list option"

record options =
  importNotes :: bool

text \<open>
  What \<^verbatim>\<open>reconcileTransactions\<close> resolves to (the driver reads \<^verbatim>\<open>added\<close>; the spec's
  batch result also lists the updated identities), and what the driver returns.
\<close>

record recon_result =
  added :: "nat list"
  updated :: "nat list"

record import_result =
  result_errors :: "import_error list"
  result_added :: "nat list"

text \<open>A valid date-fns \<^verbatim>\<open>Date\<close>, reduced to its calendar day.\<close>

record cal_date =
  year :: nat
  month :: nat
  day :: nat

section \<open>Decimal digits\<close>

definition digit_char :: "nat \<Rightarrow> char" where
  "digit_char n = char_of (48 + n)"

definition is_digit :: "char \<Rightarrow> bool" where
  "is_digit c = (48 \<le> (of_char c :: nat) \<and> (of_char c :: nat) \<le> 57)"

definition digit_val :: "char \<Rightarrow> nat" where
  "digit_val c = of_char c - 48"

fun digits :: "nat \<Rightarrow> string" where
  "digits n = (if n < 10 then [digit_char n] else digits (n div 10) @ [digit_char (n mod 10)])"

declare digits.simps [simp del]

definition nat_of_digits :: "string \<Rightarrow> nat" where
  "nat_of_digits s = foldl (\<lambda>a c. 10 * a + digit_val c) 0 s"

definition pad_left :: "nat \<Rightarrow> string \<Rightarrow> string" where
  "pad_left n s = replicate (n - length s) (CHR ''0'') @ s"

section \<open>The driver \<^verbatim>\<open>importFileWithRealTime\<close>\<close>

text \<open>JavaScript truthiness of \<^verbatim>\<open>dateFormat\<close>: undefined, null and the empty string are falsy.\<close>

definition truthy :: "string option \<Rightarrow> bool" where
  "truthy df = (case df of None \<Rightarrow> False | Some p \<Rightarrow> p \<noteq> [])"

text \<open>
  \<^verbatim>\<open>d.format(x, 'yyyy-MM-dd')\<close> of date-fns: it throws \<^verbatim>\<open>RangeError: Invalid time value\<close>
  on an Invalid Date (here \<open>None\<close>, which is what \<^verbatim>\<open>d.parse\<close> returns for a string that does
  not fit the pattern), and otherwise prints the year on at least four digits and the month
  and day on two.
\<close>

definition iso_date :: "cal_date \<Rightarrow> string" where
  "iso_date d =
     pad_left 4 (digits (year d)) @ ''-'' @ pad_left 2 (digits (month d)) @ ''-'' @
     pad_left 2 (digits (day d))"

definition format_iso :: "cal_date option \<Rightarrow> exn + string" where
  "format_iso x = (case x of None \<Rightarrow> Inl RangeError | Some d \<Rightarrow> Inr (iso_date d))"

text \<open>
  The body of the \<^verbatim>\<open>map\<close> callback (source lines 58 to 64). \<open>a2i\<close> stands for the imported
  \<^verbatim>\<open>amountToInteger\<close> and \<open>dparse\<close> for \<^verbatim>\<open>d.parse(_, _, new Date())\<close>. The reference date
  \<^verbatim>\<open>new Date()\<close> is read from the clock when the callback runs, and date-fns takes from it
  what the pattern leaves open (the year under \<^verbatim>\<open>MM/dd\<close>). So \<open>dparse\<close> is the parse function of
  one call of the driver, at the time of that call: it may be any function, and two calls
  made at different times have two parse functions, which need not agree. The amount is
  computed before the date, as the object literal evaluates its properties in order.
\<close>

definition normalize_trans ::
  "('a \<Rightarrow> exn + int) \<Rightarrow> (string \<Rightarrow> string \<Rightarrow> cal_date option) \<Rightarrow> string option \<Rightarrow>
   'a trans \<Rightarrow> exn + int trans" where
  "normalize_trans a2i dparse dateFormat t =
     (case a2i (amount t) of
        Inl e \<Rightarrow> Inl e
      | Inr n \<Rightarrow>
          (case (case dateFormat of
                   None \<Rightarrow> Inr (date t)
                 | Some p \<Rightarrow> if p \<noteq> [] then format_iso (dparse (date t) p) else Inr (date t)) of
             Inl e \<Rightarrow> Inl e
           | Inr d \<Rightarrow>
               Inr \<lparr>amount = n, date = d, payee_name = payee_name t,
                    imported_payee = imported_payee t, tx_notes = tx_notes t,
                    imported_id = imported_id t\<rparr>))"

text \<open>\<^verbatim>\<open>Array.prototype.map\<close> with a callback that may throw: the first exception ends it.\<close>

fun map_trans :: "('a \<Rightarrow> exn + 'b) \<Rightarrow> 'a list \<Rightarrow> exn + 'b list" where
  "map_trans f [] = Inr []"
| "map_trans f (x # xs) =
     (case f x of
        Inl e \<Rightarrow> Inl e
      | Inr y \<Rightarrow> (case map_trans f xs of Inl e \<Rightarrow> Inl e | Inr ys \<Rightarrow> Inr (y # ys)))"

text \<open>Source lines 55 to 65: the list is mapped only when it is there.\<close>

definition normalize_all ::
  "('a \<Rightarrow> exn + int) \<Rightarrow> (string \<Rightarrow> string \<Rightarrow> cal_date option) \<Rightarrow> string option \<Rightarrow>
   'a trans list option \<Rightarrow> exn + int trans list option" where
  "normalize_all a2i dparse dateFormat ts =
     (case ts of
        None \<Rightarrow> Inr None
      | Some xs \<Rightarrow>
          (case map_trans (normalize_trans a2i dparse dateFormat) xs of
             Inl e \<Rightarrow> Inl e
           | Inr ys \<Rightarrow> Inr (Some ys)))"

text \<open>
  The driver (source lines 41 to 72). The ledger \<open>'l\<close> is the database the collaborators
  work on; an exception leaves it as it was when thrown. \<open>pf\<close> is \<^verbatim>\<open>parseFile\<close> and \<open>rc\<close> is
  \<^verbatim>\<open>reconcileTransactions\<close>.
\<close>

definition importFileWithRealTime ::
  "(string \<Rightarrow> 'o \<Rightarrow> 'a parse_result) \<Rightarrow> ('a \<Rightarrow> exn + int) \<Rightarrow>
   (string \<Rightarrow> string \<Rightarrow> cal_date option) \<Rightarrow>
   (string \<Rightarrow> int trans list option \<Rightarrow> 'l \<Rightarrow> (exn + recon_result) \<times> 'l) \<Rightarrow>
   string \<Rightarrow> string \<Rightarrow> string option \<Rightarrow> 'o \<Rightarrow> 'l \<Rightarrow> (exn + import_result) \<times> 'l" where
  "importFileWithRealTime pf a2i dparse rc accountId filepath dateFormat opts ledger =
     (let r = pf filepath opts in
      case normalize_all a2i dparse dateFormat (transactions r) of
        Inl e \<Rightarrow> (Inl e, ledger)
      | Inr txs \<Rightarrow>
          if errors r \<noteq> [] then (Inr \<lparr>result_errors = errors r, result_added = []\<rparr>, ledger)
          else
            (case rc accountId txs ledger of
               (Inl e, ledger') \<Rightarrow> (Inl e, ledger')
             | (Inr res, ledger') \<Rightarrow>
                 (Inr \<lparr>result_errors = errors r, result_added = added res\<rparr>, ledger')))"

section \<open>Format detection and \<^verbatim>\<open>parseFile\<close>\<close>

datatype file_format = QIF | OFX | QFX | CAMT

text \<open>
  Modelled from the spec: the formats that the Format Detector of the absent \<^verbatim>\<open>parseFile\<close>
  tells apart (section 6), and the RawRecord that a format parser, an external collaborator,
  emits for one record of the file (section 3).
\<close>

record raw_record =
  r_date :: string
  r_amount :: string
  r_payee :: string
  r_memo :: "string option"
  r_unique_id :: "string option"

text \<open>
  Modelled from the spec: the parser interface
  \<^verbatim>\<open>parse(file) -> { errors, transactions: [RawRecord] }\<close> of section 6.
\<close>

record parser_output =
  p_errors :: "import_error list"
  p_records :: "raw_record list"

text \<open>
  Modelled from the spec: the case-insensitive comparison of the Format Detector, as the
  lower case of the ASCII letters.
\<close>

definition to_lower :: "char \<Rightarrow> char" where
  "to_lower c =
     (if 65 \<le> (of_char c :: nat) \<and> (of_char c :: nat) \<le> 90 then char_of ((of_char c :: nat) + 32)
      else c)"

text \<open>
  Modelled from the spec: the Format Detector, which is part of the absent \<^verbatim>\<open>parseFile\<close>.
  The extension is what follows the last dot of the file name; a name without a dot has
  none.
\<close>

definition extension :: "string \<Rightarrow> string option" where
  "extension name =
     (if CHR ''.'' \<in> set name then Some (rev (takeWhile (\<lambda>c. c \<noteq> CHR ''.'') (rev name)))
      else None)"

text \<open>
  Modelled from the spec: the Format Detector's choice of a parser, ``by extension,
  case-insensitively'', over the supported categories \<^verbatim>\<open>.qif\<close>, \<^verbatim>\<open>.ofx\<close>, \<^verbatim>\<open>.qfx\<close> and CAMT
  \<^verbatim>\<open>.xml\<close>.
\<close>

definition detect_format :: "string \<Rightarrow> file_format option" where
  "detect_format name =
     (case extension name of
        None \<Rightarrow> None
      | Some e \<Rightarrow>
          (let x = map to_lower e in
           if x = ''qif'' then Some QIF
           else if x = ''ofx'' then Some OFX
           else if x = ''qfx'' then Some QFX
           else if x = ''xml'' then Some CAMT
           else None))"

text \<open>
  Modelled from the spec: whether note import is enabled in the configuration handed to the
  absent \<^verbatim>\<open>parseFile\<close>; the driver's \<^verbatim>\<open>options\<close> argument is optional, and without it
  nothing enables the notes.
\<close>

definition notes_enabled :: "options option \<Rightarrow> bool" where
  "notes_enabled opts = (case opts of None \<Rightarrow> False | Some c \<Rightarrow> importNotes c)"

text \<open>
  Modelled from the spec: the part of the Normalizer that the absent \<^verbatim>\<open>parseFile\<close> applies
  to each raw record, whatever the format: the payee is kept raw and cleaned (\<open>clean\<close> is
  the decoding and unescaping of free text), and the notes are the cleaned memo when note
  import is enabled and absent otherwise. Amount and date stay as the parser gave them; the
  driver converts them.
\<close>

definition to_trans :: "(string \<Rightarrow> string) \<Rightarrow> bool \<Rightarrow> raw_record \<Rightarrow> string trans" where
  "to_trans clean with_notes r =
     \<lparr>amount = r_amount r, date = r_date r, payee_name = clean (r_payee r),
      imported_payee = r_payee r,
      tx_notes = (if with_notes then map_option clean (r_memo r) else None),
      imported_id = r_unique_id r\<rparr>"

text \<open>
  Modelled from the spec: \<^verbatim>\<open>parseFile\<close>, which is imported from \<^verbatim>\<open>./parse-file\<close> and not
  part of the sources at hand. An unsupported extension fails fast, before any parsing, with
  the single error \<^verbatim>\<open>Invalid file type\<close> and an empty result; otherwise the parser of the
  detected format runs on the file, and its errors are passed on next to its records.
  \<open>parsers\<close> are the external format parsers.
\<close>

definition parseFile ::
  "(file_format \<Rightarrow> string \<Rightarrow> parser_output) \<Rightarrow> (string \<Rightarrow> string) \<Rightarrow> string \<Rightarrow>
   options option \<Rightarrow> string parse_result" where
  "parseFile parsers clean filepath opts =
     (case detect_format filepath of
        None \<Rightarrow>
          \<lparr>errors = [\<lparr>message = ''Invalid file type'', source_ref = []\<rparr>],
           transactions = Some []\<rparr>
      | Some fmt \<Rightarrow>
          (let out = parsers fmt filepath in
           \<lparr>errors = p_errors out,
            transactions = Some (map (to_trans clean (notes_enabled opts)) (p_records out))\<rparr>))"

section \<open>Amounts\<close>

text \<open>
  Modelled from the spec: the shape of a signed decimal amount string, the input of the absent
  \<^verbatim>\<open>amountToInteger\<close>: an optional sign, at least one digit, and optionally a point followed
  by at least one digit.
\<close>

definition split_sign :: "string \<Rightarrow> bool \<times> string" where
  "split_sign s =
     (case s of
        [] \<Rightarrow> (False, [])
      | c # r \<Rightarrow> if c = CHR ''-'' then (True, r) else if c = CHR ''+'' then (False, r) else (False, s))"

text \<open>Modelled from the spec: the digits of such a string before the point.\<close>

definition int_part :: "string \<Rightarrow> string" where
  "int_part s = takeWhile (\<lambda>c. c \<noteq> CHR ''.'') (snd (split_sign s))"

text \<open>Modelled from the spec: what follows the point of such a string, when it has one.\<close>

definition frac_part :: "string \<Rightarrow> string option" where
  "frac_part s =
     (case dropWhile (\<lambda>c. c \<noteq> CHR ''.'') (snd (split_sign s)) of
        [] \<Rightarrow> None
      | c # f \<Rightarrow> Some f)"

text \<open>Modelled from the spec: the fractional digits, none when there is no point.\<close>

definition frac_digits :: "string \<Rightarrow> string" where
  "frac_digits s = (case frac_part s of None \<Rightarrow> [] | Some f \<Rightarrow> f)"

text \<open>
  Modelled from the spec: the numeric inputs of the absent \<^verbatim>\<open>amountToInteger\<close>, the
  well-formed signed decimal strings; every other input is non-numeric and rejected.
\<close>

definition numeric :: "string \<Rightarrow> bool" where
  "numeric s =
     (int_part s \<noteq> [] \<and> list_all is_digit (int_part s) \<and>
      (case frac_part s of None \<Rightarrow> True | Some f \<Rightarrow> f \<noteq> [] \<and> list_all is_digit f))"

text \<open>
  Modelled from the spec: the count of minor units of a numeric string ``using a fixed
  scale (e.g. cents)'', the scale at which \<^verbatim>\<open>-12.34\<close> is \<^verbatim>\<open>-1234\<close>. Digits beyond the second
  fractional one cannot be kept at that scale; the spec does not say how they are dropped,
  and the nearest count is taken here (half away from zero).
\<close>

definition minor_units :: "string \<Rightarrow> nat" where
  "minor_units s =
     (let f = frac_digits s in
      nat_of_digits (int_part s) * 100 + nat_of_digits (take 2 (f @ ''00'')) +
      (if 2 < length f \<and> 5 \<le> digit_val (f ! 2) then 1 else 0))"

text \<open>
  Modelled from the spec: \<^verbatim>\<open>amountToInteger\<close>, imported from \<^verbatim>\<open>shared/util\<close> and not part
  of the sources at hand: ``parse the source numeric representation and convert to an
  integer count of minor units using a fixed scale; reject non-numeric or overflowing
  input''. \<open>None\<close> is the rejection; \<open>limit\<close> is the largest magnitude that does not
  overflow, which the spec leaves open.
\<close>

definition amountToInteger :: "int \<Rightarrow> string \<Rightarrow> int option" where
  "amountToInteger limit s =
     (if \<not> numeric s then None
      else
        (let n = (if fst (split_sign s) then - int (minor_units s) else int (minor_units s)) in
         if limit < \<bar>n\<bar> then None else Some n))"

text \<open>
  Modelled from the spec: the reformatting of a count of minor units back to a decimal
  string at the same scale, the inverse direction of the round trip of \<^verbatim>\<open>-12.34\<close> and
  \<^verbatim>\<open>-1234\<close>.
\<close>

definition integerToAmount :: "int \<Rightarrow> string" where
  "integerToAmount n =
     (if n < 0 then ''-'' else []) @ digits (nat \<bar>n\<bar> div 100) @ ''.'' @
     pad_left 2 (digits (nat \<bar>n\<bar> mod 100))"

text \<open>
  Modelled from the spec: the decimal value that a numeric string denotes, which the round
  trip is to reproduce.
\<close>

definition decimal_value :: "string \<Rightarrow> rat" where
  "decimal_value s =
     (if fst (split_sign s) then - 1 else 1) *
     (of_nat (nat_of_digits (int_part s)) +
      of_nat (nat_of_digits (frac_digits s)) / 10 ^ length (frac_digits s))"

text \<open>
  Modelled from the spec: how a rejection by the absent \<^verbatim>\<open>amountToInteger\<close> reaches the
  driver. The driver calls it inside its \<^verbatim>\<open>map\<close> with nothing around it, so a rejection
  can only surface as an exception of the whole call.
\<close>

definition amount_or_throw :: "int \<Rightarrow> string \<Rightarrow> exn + int" where
  "amount_or_throw limit s =
     (case amountToInteger limit s of None \<Rightarrow> Inl ParseError | Some n \<Rightarrow> Inr n)"

section \<open>Import keys\<close>

text \<open>
  Modelled from the spec: the deduplication key of the Import-ID Assigner, which lives
  in the absent \<^verbatim>\<open>reconcileTransactions\<close>: either the identifier the source format
  provides, verbatim, or the fingerprint of account, date, amount and payee with its
  occurrence counter. The fingerprint is kept as the tuple it is derived from.
\<close>

datatype import_key =
  SourceId string
| Fingerprint string string int string nat

text \<open>
  Modelled from the spec: the Import-ID Assigner. \<open>seen\<close> holds the date, amount and payee
  of the fingerprinted transactions met so far in the file, so that the counter of a
  transaction is the number of identical ones before it.
\<close>

fun assign_ids ::
  "string \<Rightarrow> (string \<times> int \<times> string) list \<Rightarrow> int trans list \<Rightarrow> (import_key \<times> int trans) list"
  where
  "assign_ids accountId seen [] = []"
| "assign_ids accountId seen (t # ts) =
     (case imported_id t of
        Some u \<Rightarrow> (SourceId u, t) # assign_ids accountId seen ts
      | None \<Rightarrow>
          (let b = (date t, amount t, payee_name t) in
           (Fingerprint accountId (date t) (amount t) (payee_name t) (count_list seen b), t) #
           assign_ids accountId (b # seen) ts))"

section \<open>Reconciliation\<close>

text \<open>
  Modelled from the spec: a LedgerTransaction, a persisted row with the logical fields of
  a transaction, the identity the storage assigned, and the user-edited flag.
\<close>

record ledger_row =
  row_id :: nat
  acct :: string
  row_date :: string
  row_amount :: int
  row_payee :: string
  row_imported_payee :: string
  row_notes :: "string option"
  import_id :: "import_key option"
  user_edited :: bool

text \<open>
  Modelled from the spec: the reconciliation configuration: the date tolerance in days
  (default: same day) and the payee similarity threshold.
\<close>

record match_config =
  date_tolerance :: nat
  similarity_threshold :: nat

text \<open>
  Modelled from the spec: a fuzzy match of step 2, against an unreconciled row (one that
  carries no import key): the date within the tolerance window, the same amount, the payee
  similarity above the threshold. \<open>day_of\<close> numbers the calendar days and \<open>sim\<close> scores
  the similarity of two payees; both belong to the configuration.
\<close>

definition fuzzy_match ::
  "match_config \<Rightarrow> (string \<Rightarrow> int) \<Rightarrow> (string \<Rightarrow> string \<Rightarrow> nat) \<Rightarrow> int trans \<Rightarrow> ledger_row \<Rightarrow> bool"
  where
  "fuzzy_match cfg day_of sim t r =
     (import_id r = None \<and>
      \<bar>day_of (date t) - day_of (row_date r)\<bar> \<le> int (date_tolerance cfg) \<and>
      row_amount r = amount t \<and>
      similarity_threshold cfg < sim (payee_name t) (row_payee r))"

text \<open>Modelled from the spec: the update path, which refreshes payee and notes from the new data.\<close>

definition refresh :: "int trans \<Rightarrow> ledger_row \<Rightarrow> ledger_row" where
  "refresh t r = r\<lparr>row_payee := payee_name t, row_notes := tx_notes t\<rparr>"

text \<open>Modelled from the spec: the row that step 3 inserts for a transaction.\<close>

definition new_row :: "nat \<Rightarrow> string \<Rightarrow> import_key \<Rightarrow> int trans \<Rightarrow> ledger_row" where
  "new_row i accountId k t =
     \<lparr>row_id = i, acct = accountId, row_date = date t, row_amount = amount t,
      row_payee = payee_name t, row_imported_payee = imported_payee t,
      row_notes = tx_notes t, import_id = Some k, user_edited = False\<rparr>"

text \<open>
  Modelled from the spec: the state of one batch. \<open>pool\<close> is the candidate pool, the
  existing rows of the account that no transaction of the batch has claimed yet; \<open>settled\<close>
  are the rows claimed or inserted so far, in the order of the transactions.
\<close>

record recon_state =
  pool :: "ledger_row list"
  settled :: "ledger_row list"
  next_id :: nat
  added_ids :: "nat list"
  updated_ids :: "nat list"

text \<open>
  Modelled from the spec: steps 1 to 4 of the Reconciliation Engine for one transaction.
  An exact match on the import key skips the insertion and refreshes the row unless the
  user edited it; otherwise a fuzzy match attaches the key to the row, and refreshes it
  unless the user edited it; otherwise a row is inserted. A claimed row leaves the pool.
\<close>

definition reconcile_one ::
  "match_config \<Rightarrow> (string \<Rightarrow> int) \<Rightarrow> (string \<Rightarrow> string \<Rightarrow> nat) \<Rightarrow> string \<Rightarrow>
   recon_state \<Rightarrow> import_key \<times> int trans \<Rightarrow> recon_state" where
  "reconcile_one cfg day_of sim accountId st kt =
     (let k = fst kt; t = snd kt in
      case find (\<lambda>r. import_id r = Some k) (pool st) of
        Some r \<Rightarrow>
          if user_edited r then
            st\<lparr>pool := remove1 r (pool st), settled := settled st @ [r]\<rparr>
          else
            st\<lparr>pool := remove1 r (pool st), settled := settled st @ [refresh t r],
               updated_ids := updated_ids st @ [row_id r]\<rparr>
      | None \<Rightarrow>
          (case find (fuzzy_match cfg day_of sim t) (pool st) of
             Some r \<Rightarrow>
               st\<lparr>pool := remove1 r (pool st),
                  settled :=
                    settled st @ [(if user_edited r then r else refresh t r)\<lparr>import_id := Some k\<rparr>],
                  updated_ids := updated_ids st @ [row_id r]\<rparr>
           | None \<Rightarrow>
               st\<lparr>settled := settled st @ [new_row (next_id st) accountId k t],
                  next_id := Suc (next_id st),
                  added_ids := added_ids st @ [next_id st]\<rparr>))"

text \<open>Modelled from the spec: an identity that no row of the ledger carries.\<close>

definition fresh_id :: "ledger_row list \<Rightarrow> nat" where
  "fresh_id ledger = Suc (foldr max (map row_id ledger) 0)"

text \<open>Modelled from the spec: the batch, the transactions taken in file order.\<close>

definition reconcile_batch ::
  "match_config \<Rightarrow> (string \<Rightarrow> int) \<Rightarrow> (string \<Rightarrow> string \<Rightarrow> nat) \<Rightarrow> string \<Rightarrow>
   int trans list \<Rightarrow> ledger_row list \<Rightarrow> recon_state" where
  "reconcile_batch cfg day_of sim accountId ts ledger =
     foldl (reconcile_one cfg day_of sim accountId)
       \<lparr>pool = filter (\<lambda>r. acct r = accountId) ledger, settled = [],
        next_id = fresh_id ledger, added_ids = [], updated_ids = []\<rparr>
       (assign_ids accountId [] ts)"

text \<open>
  Modelled from the spec: \<^verbatim>\<open>reconcileTransactions\<close>, imported from \<^verbatim>\<open>accounts/sync\<close> and
  not part of the sources at hand: the keys are assigned, the batch is reconciled against
  the rows of the account, and the ledger afterwards holds the rows of the other accounts,
  the settled rows and what is left of the pool. An absent transaction list cannot be
  iterated.
\<close>

definition reconcileTransactions ::
  "match_config \<Rightarrow> (string \<Rightarrow> int) \<Rightarrow> (string \<Rightarrow> string \<Rightarrow> nat) \<Rightarrow> string \<Rightarrow>
   int trans list option \<Rightarrow> ledger_row list \<Rightarrow> (exn + recon_result) \<times> ledger_row list" where
  "reconcileTransactions cfg day_of sim accountId txs ledger =
     (case txs of
        None \<Rightarrow> (Inl TypeError, ledger)
      | Some ts \<Rightarrow>
          (let st = reconcile_batch cfg day_of sim accountId ts ledger in
           (Inr \<lparr>added = added_ids st, updated = updated_ids st\<rparr>,
            filter (\<lambda>r. acct r \<noteq> accountId) ledger @ settled st @ pool st)))"

section \<open>The assembled import\<close>

text \<open>
  The driver as written, with the collaborators modelled from the spec in place of its
  parameters: the import that the tests of the repository run.
\<close>

definition import_file ::
  "(file_format \<Rightarrow> string \<Rightarrow> parser_output) \<Rightarrow> (string \<Rightarrow> string) \<Rightarrow> int \<Rightarrow>
   (string \<Rightarrow> string \<Rightarrow> cal_date option) \<Rightarrow> match_config \<Rightarrow> (string \<Rightarrow> int) \<Rightarrow>
   (string \<Rightarrow> string \<Rightarrow> nat) \<Rightarrow> string \<Rightarrow> string \<Rightarrow> string option \<Rightarrow> options option \<Rightarrow>
   ledger_row list \<Rightarrow> (exn + import_result) \<times> ledger_row list" where
  "import_file parsers clean limit dparse cfg day_of sim accountId filepath dateFormat opts ledger =
     importFileWithRealTime (parseFile parsers clean) (amount_or_throw limit) dparse
       (reconcileTransactions cfg day_of sim) accountId filepath dateFormat opts ledger"

section \<open>Notions used by the properties of the reconciliation\<close>





section \<open>The shape of an ISO date\<close>

text \<open>The form \<^verbatim>\<open>yyyy-MM-dd\<close>: four digits, two digits and two digits between dashes.\<close>

definition iso_shaped :: "string \<Rightarrow> bool" where
  "iso_shaped s =
     (length s = 10 \<and> list_all is_digit (take 4 s) \<and> s ! 4 = CHR ''-'' \<and>
      list_all is_digit (take 2 (drop 5 s)) \<and> s ! 7 = CHR ''-'' \<and> list_all is_digit (drop 8 s))"

section \<open>Sample inputs\<close>

text \<open>
  Concrete inputs at which the properties below are evaluated: a parser result with a
  reported error next to a valid transaction, transactions whose date does or does not fit
  the pattern \<^verbatim>\<open>MM/dd/yy\<close> (the second is written day first, so its month would be 31),
  an instance of \<^verbatim>\<open>d.parse\<close> that knows one date, and a matching configuration.
\<close>

definition safe_limit :: int where
  "safe_limit = 9007199254740991"

definition sample_error :: import_error where
  "sample_error = \<lparr>message = ''malformed record'', source_ref = ''line 7''\<rparr>"

definition tx_good :: "string trans" where
  "tx_good =
     \<lparr>amount = ''-12.34'', date = ''01/02/20'', payee_name = ''Grocer'',
      imported_payee = ''GROCER 12'', tx_notes = Some ''weekly'', imported_id = None\<rparr>"

definition tx_bad_date :: "string trans" where
  "tx_bad_date =
     \<lparr>amount = ''5.00'', date = ''31/12/20'', payee_name = ''Baker'',
      imported_payee = ''BAKER'', tx_notes = None, imported_id = None\<rparr>"

definition sample_dparse :: "string \<Rightarrow> string \<Rightarrow> cal_date option" where
  "sample_dparse s p =
     (if p = ''MM/dd/yy'' \<and> s = ''01/02/20'' then Some \<lparr>year = 2020, month = 1, day = 2\<rparr>
      else None)"

definition sample_cfg :: match_config where
  "sample_cfg = \<lparr>date_tolerance = 0, similarity_threshold = 50\<rparr>"

definition sample_day :: "string \<Rightarrow> int" where
  "sample_day s = int (nat_of_digits (filter is_digit s))"

definition sample_sim :: "string \<Rightarrow> string \<Rightarrow> nat" where
  "sample_sim a b = (if a = b then 100 else 0)"

definition parse_error_and_good :: "string \<Rightarrow> options option \<Rightarrow> string parse_result" where
  "parse_error_and_good filepath opts = \<lparr>errors = [sample_error], transactions = Some [tx_good]\<rparr>"

definition parse_good_only :: "string \<Rightarrow> options option \<Rightarrow> string parse_result" where
  "parse_good_only filepath opts = \<lparr>errors = [], transactions = Some [tx_good]\<rparr>"

definition parse_error_and_bad_date :: "string \<Rightarrow> options option \<Rightarrow> string parse_result" where
  "parse_error_and_bad_date filepath opts =
     \<lparr>errors = [sample_error], transactions = Some [tx_bad_date]\<rparr>"

definition parse_good_and_bad_date :: "string \<Rightarrow> options option \<Rightarrow> string parse_result" where
  "parse_good_and_bad_date filepath opts =
     \<lparr>errors = [], transactions = Some [tx_good, tx_bad_date]\<rparr>"

text \<open>A format parser that finds the same record twice, and a text cleaning that changes nothing.\<close>

definition sample_record :: raw_record where
  "sample_record =
     \<lparr>r_date = ''01/02/20'', r_amount = ''-12.34'', r_payee = ''Grocer'',
      r_memo = Some ''weekly'', r_unique_id = None\<rparr>"

definition sample_parsers :: "file_format \<Rightarrow> string \<Rightarrow> parser_output" where
  "sample_parsers fmt filepath = \<lparr>p_errors = [], p_records = [sample_record, sample_record]\<rparr>"

definition keep_text :: "string \<Rightarrow> string" where
  "keep_text s = s"











section \<open>Digits and the ISO form\<close>

lemma of_char_digit_char: "n < 10 \<Longrightarrow> (of_char (digit_char n) :: nat) = 48 + n"
  by (simp add: digit_char_def)

lemma is_digit_digit_char: "n < 10 \<Longrightarrow> is_digit (digit_char n)"
  by (simp add: is_digit_def of_char_digit_char)

lemma digit_val_digit_char: "n < 10 \<Longrightarrow> digit_val (digit_char n) = n"
  by (simp add: digit_val_def of_char_digit_char)

lemma digits_all_digit: "list_all is_digit (digits n)"
proof (induction n rule: digits.induct)
  case (1 n)
  show ?case
  proof (cases "n < 10")
    case True
    then show ?thesis by (simp add: digits.simps [of n] is_digit_digit_char)
  next
    case False
    with 1 show ?thesis by (simp add: digits.simps [of n] is_digit_digit_char)
  qed
qed

lemma length_digits_pos: "0 < length (digits n)"
  by (subst digits.simps) simp

lemma length_digits_le: "0 < k \<Longrightarrow> n < 10 ^ k \<Longrightarrow> length (digits n) \<le> k"
proof (induction n arbitrary: k rule: digits.induct)
  case (1 n)
  show ?case
  proof (cases "n < 10")
    case True
    with 1 show ?thesis by (simp add: digits.simps [of n])
  next
    case False
    have "k \<noteq> 0" "k \<noteq> 1" using 1(2,3) False by auto
    then obtain j where k: "k = Suc j" and j: "0 < j"
      by (cases k) auto
    have "n div 10 < 10 ^ j" using 1(3) k by (simp add: less_mult_imp_div_less mult.commute)
    with 1(1) [OF False j] have "length (digits (n div 10)) \<le> j" .
    with False k show ?thesis by (simp add: digits.simps [of n])
  qed
qed

lemma nat_of_digits_snoc: "nat_of_digits (s @ [c]) = 10 * nat_of_digits s + digit_val c"
  by (simp add: nat_of_digits_def)

lemma nat_of_digits_digits: "nat_of_digits (digits n) = n"
proof (induction n rule: digits.induct)
  case (1 n)
  show ?case
  proof (cases "n < 10")
    case True
    then show ?thesis by (simp add: digits.simps [of n] nat_of_digits_def digit_val_digit_char)
  next
    case False
    with 1 show ?thesis
      by (simp add: digits.simps [of n] nat_of_digits_snoc digit_val_digit_char)
  qed
qed



lemma length_pad_left: "length s \<le> n \<Longrightarrow> length (pad_left n s) = n"
  by (simp add: pad_left_def)

lemma pad_left_all_digit: "list_all is_digit s \<Longrightarrow> list_all is_digit (pad_left n s)"
  by (auto simp: pad_left_def list_all_iff is_digit_def)

lemma padded_digits:
  "0 < k \<Longrightarrow> n < 10 ^ k \<Longrightarrow>
   length (pad_left k (digits n)) = k \<and> list_all is_digit (pad_left k (digits n))"
  by (simp add: length_pad_left length_digits_le pad_left_all_digit digits_all_digit)

lemma iso_date_shaped:
  assumes "year d < 10000" "month d < 100" "day d < 100"
  shows "iso_shaped (iso_date d)"
proof -
  obtain y where y: "y = pad_left 4 (digits (year d))" by simp
  obtain m where m: "m = pad_left 2 (digits (month d))" by simp
  obtain a where a: "a = pad_left 2 (digits (day d))" by simp
  have ly: "length y = 4" "list_all is_digit y"
    using padded_digits [of 4 "year d"] assms(1) y by simp_all
  have lm: "length m = 2" "list_all is_digit m"
    using padded_digits [of 2 "month d"] assms(2) m by simp_all
  have la: "length a = 2" "list_all is_digit a"
    using padded_digits [of 2 "day d"] assms(3) a by simp_all
  have "iso_date d = y @ ''-'' @ m @ ''-'' @ a"
    by (simp add: iso_date_def y m a)
  then show ?thesis using ly lm la
    by (simp add: iso_shaped_def nth_append)
qed

lemma map_trans_fails:
  "x \<in> set xs \<Longrightarrow> f x = Inl e \<Longrightarrow> \<forall>y \<in> set xs. \<forall>e'. f y = Inl e' \<longrightarrow> e' = e \<Longrightarrow>
   map_trans f xs = Inl e"
proof (induction xs)
  case Nil
  then show ?case by simp
next
  case (Cons a xs)
  show ?case
  proof (cases "f a")
    case (Inl e')
    then have "e' = e" using Cons.prems(3) by simp
    then show ?thesis using Inl by simp
  next
    case (Inr y)
    then have "x \<in> set xs" using Cons.prems(1,2) by auto
    moreover have "\<forall>y \<in> set xs. \<forall>e'. f y = Inl e' \<longrightarrow> e' = e" using Cons.prems(3) by simp
    ultimately have "map_trans f xs = Inl e" using Cons.IH Cons.prems(2) by blast
    then show ?thesis using Inr by simp
  qed
qed

lemma normalize_trans_exn:
  assumes "a2i (amount t) = Inr n" "normalize_trans a2i dparse dateFormat t = Inl e"
  shows "e = RangeError"
proof (cases "truthy dateFormat")
  case False
  then show ?thesis using assms
    by (cases dateFormat) (simp_all add: normalize_trans_def truthy_def)
next
  case True
  then obtain p where p: "dateFormat = Some p" "p \<noteq> []"
    by (cases dateFormat) (simp_all add: truthy_def)
  show ?thesis
  proof (cases "dparse (date t) p")
    case None
    then show ?thesis using assms p by (simp add: normalize_trans_def format_iso_def)
  next
    case (Some d)
    then show ?thesis using assms p by (simp add: normalize_trans_def format_iso_def)
  qed
qed

lemma normalize_trans_parsed:
  assumes "a2i (amount t) = Inr n" "dateFormat = Some p" "p \<noteq> []" "dparse (date t) p = Some d"
  shows "normalize_trans a2i dparse dateFormat t =
     Inr \<lparr>amount = n, date = iso_date d, payee_name = payee_name t,
          imported_payee = imported_payee t, tx_notes = tx_notes t,
          imported_id = imported_id t\<rparr>"
  using assms by (simp add: normalize_trans_def format_iso_def)

lemma normalize_trans_as_is:
  assumes "a2i (amount t) = Inr n" "\<not> truthy dateFormat"
  shows "normalize_trans a2i dparse dateFormat t =
     Inr \<lparr>amount = n, date = date t, payee_name = payee_name t,
          imported_payee = imported_payee t, tx_notes = tx_notes t,
          imported_id = imported_id t\<rparr>"
  using assms by (cases dateFormat) (simp_all add: normalize_trans_def truthy_def)

lemma normalize_trans_invalid:
  assumes "a2i (amount t) = Inr n" "dateFormat = Some p" "p \<noteq> []" "dparse (date t) p = None"
  shows "normalize_trans a2i dparse dateFormat t = Inl RangeError"
  using assms by (simp add: normalize_trans_def format_iso_def)

lemma import_invalid_date:
  assumes "dateFormat = Some p" "p \<noteq> []" "dparse (date t) p = None"
    and "transactions (pf filepath opts) = Some ts" "t \<in> set ts"
    and "\<forall>u \<in> set ts. \<exists>m. a2i (amount u) = Inr m"
  shows "importFileWithRealTime pf a2i dparse rc accountId filepath dateFormat opts ledger =
           (Inl RangeError, ledger)"
proof -
  obtain n where "a2i (amount t) = Inr n" using assms(5,6) by blast
  then have "normalize_trans a2i dparse dateFormat t = Inl RangeError"
    using assms(1-3) by (rule normalize_trans_invalid)
  moreover have "\<forall>y \<in> set ts. \<forall>e'. normalize_trans a2i dparse dateFormat y = Inl e' \<longrightarrow>
      e' = RangeError"
  proof (intro ballI allI impI)
    fix y e' assume y: "y \<in> set ts" "normalize_trans a2i dparse dateFormat y = Inl e'"
    then obtain m where "a2i (amount y) = Inr m" using assms(6) by blast
    then show "e' = RangeError" using y(2) by (rule normalize_trans_exn)
  qed
  ultimately have "map_trans (normalize_trans a2i dparse dateFormat) ts = Inl RangeError"
    using map_trans_fails [OF assms(5)] by blast
  then show ?thesis
    using assms(4) by (simp add: importFileWithRealTime_def normalize_all_def Let_def)
qed

section \<open>The driver: dates\<close>

text \<open>
  C7, as the driver has it. With a non-empty date pattern the date of a record is parsed
  against the pattern by \<^verbatim>\<open>d.parse\<close>, and the transaction handed on carries the parsed day
  in the form \<^verbatim>\<open>yyyy-MM-dd\<close>; without a pattern (undefined, null or empty) the date of the
  source is handed on as it is. A date that does not fit the pattern is not a per-record
  error: \<^verbatim>\<open>d.format\<close> throws on the Invalid Date, and the whole call ends with that
  exception, whatever the other records are, with the ledger untouched.
\<close>

theorem date_normalization:
  fixes a2i :: "'a \<Rightarrow> exn + int"
  assumes "a2i (amount t) = Inr n"
  shows "(\<forall>p d. dateFormat = Some p \<and> p \<noteq> [] \<and> dparse (date t) p = Some d \<longrightarrow>
            (\<exists>t'. normalize_trans a2i dparse dateFormat t = Inr t' \<and> date t' = iso_date d \<and>
                  (year d < 10000 \<and> month d < 100 \<and> day d < 100 \<longrightarrow> iso_shaped (date t')))) \<and>
         (\<not> truthy dateFormat \<longrightarrow>
            (\<exists>t'. normalize_trans a2i dparse dateFormat t = Inr t' \<and> date t' = date t)) \<and>
         (\<forall>p ts. dateFormat = Some p \<and> p \<noteq> [] \<and> dparse (date t) p = None \<and>
            transactions (pf filepath opts) = Some ts \<and> t \<in> set ts \<and>
            (\<forall>u \<in> set ts. \<exists>m. a2i (amount u) = Inr m) \<longrightarrow>
            importFileWithRealTime pf a2i dparse rc accountId filepath dateFormat opts ledger =
              (Inl RangeError, ledger))"
proof (intro conjI allI impI)
  fix p d
  assume h: "dateFormat = Some p \<and> p \<noteq> [] \<and> dparse (date t) p = Some d"
  have "normalize_trans a2i dparse dateFormat t =
     Inr \<lparr>amount = n, date = iso_date d, payee_name = payee_name t,
          imported_payee = imported_payee t, tx_notes = tx_notes t,
          imported_id = imported_id t\<rparr>"
    using normalize_trans_parsed [of a2i t n dateFormat p dparse d] assms h by blast
  then show "\<exists>t'. normalize_trans a2i dparse dateFormat t = Inr t' \<and> date t' = iso_date d \<and>
                  (year d < 10000 \<and> month d < 100 \<and> day d < 100 \<longrightarrow> iso_shaped (date t'))"
    by (simp add: iso_date_shaped)
next
  assume "\<not> truthy dateFormat"
  with assms have "normalize_trans a2i dparse dateFormat t =
     Inr \<lparr>amount = n, date = date t, payee_name = payee_name t,
          imported_payee = imported_payee t, tx_notes = tx_notes t,
          imported_id = imported_id t\<rparr>"
    by (rule normalize_trans_as_is)
  then show "\<exists>t'. normalize_trans a2i dparse dateFormat t = Inr t' \<and> date t' = date t"
    by simp
next
  fix p ts
  assume h: "dateFormat = Some p \<and> p \<noteq> [] \<and> dparse (date t) p = None \<and>
            transactions (pf filepath opts) = Some ts \<and> t \<in> set ts \<and>
            (\<forall>u \<in> set ts. \<exists>m. a2i (amount u) = Inr m)"
  show "importFileWithRealTime pf a2i dparse rc accountId filepath dateFormat opts ledger =
              (Inl RangeError, ledger)"
  proof (rule import_invalid_date)
    show "dateFormat = Some p" using h by simp
    show "p \<noteq> []" using h by simp
    show "dparse (date t) p = None" using h by simp
    show "transactions (pf filepath opts) = Some ts" using h by simp
    show "t \<in> set ts" using h by simp
    show "\<forall>u \<in> set ts. \<exists>m. a2i (amount u) = Inr m" using h by simp
  qed
qed

text \<open>The three cases of C7 at sample transactions.\<close>

theorem date_normalization_witness:
  "(\<exists>t'. normalize_trans (amount_or_throw safe_limit) sample_dparse (Some ''MM/dd/yy'') tx_good = Inr t' \<and>
         date t' = iso_date \<lparr>year = 2020, month = 1, day = 2\<rparr> \<and> iso_shaped (date t')) \<and>
   (\<exists>t'. normalize_trans (amount_or_throw safe_limit) sample_dparse None tx_good = Inr t' \<and>
         date t' = date tx_good) \<and>
   importFileWithRealTime parse_good_and_bad_date (amount_or_throw safe_limit) sample_dparse
     (reconcileTransactions sample_cfg sample_day sample_sim) ''one'' ''data.qif''
     (Some ''MM/dd/yy'') None [] = (Inl RangeError, [])"
proof -
  have a: "amount_or_throw safe_limit (amount tx_good) = Inr (- 1234)" by code_simp
  have b: "amount_or_throw safe_limit (amount tx_bad_date) = Inr 500" by code_simp
  have d: "sample_dparse (date tx_good) ''MM/dd/yy'' = Some \<lparr>year = 2020, month = 1, day = 2\<rparr>"
    by code_simp
  have e: "sample_dparse (date tx_bad_date) ''MM/dd/yy'' = None" by code_simp
  have ts: "transactions (parse_good_and_bad_date ''data.qif'' None) = Some [tx_good, tx_bad_date]"
    by (simp add: parse_good_and_bad_date_def)
  have "\<exists>t'. normalize_trans (amount_or_throw safe_limit) sample_dparse (Some ''MM/dd/yy'') tx_good = Inr t' \<and>
         date t' = iso_date \<lparr>year = 2020, month = 1, day = 2\<rparr> \<and> iso_shaped (date t')"
    using date_normalization [where ?a2i = "amount_or_throw safe_limit" and t = tx_good
        and n = "- 1234" and dateFormat = "Some ''MM/dd/yy''" and dparse = sample_dparse] a d
    by simp
  moreover have "\<exists>t'. normalize_trans (amount_or_throw safe_limit) sample_dparse None tx_good = Inr t' \<and>
         date t' = date tx_good"
    using date_normalization [where ?a2i = "amount_or_throw safe_limit" and t = tx_good
        and n = "- 1234" and dateFormat = None and dparse = sample_dparse] a
    by (simp add: truthy_def)
  moreover have "importFileWithRealTime parse_good_and_bad_date (amount_or_throw safe_limit) sample_dparse
     (reconcileTransactions sample_cfg sample_day sample_sim) ''one'' ''data.qif''
     (Some ''MM/dd/yy'') None [] = (Inl RangeError, [])"
  proof -
    have "\<forall>p ts. Some ''MM/dd/yy'' = Some p \<and> p \<noteq> [] \<and>
            sample_dparse (date tx_bad_date) p = None \<and>
            transactions (parse_good_and_bad_date ''data.qif'' None) = Some ts \<and>
            tx_bad_date \<in> set ts \<and>
            (\<forall>u \<in> set ts. \<exists>m. amount_or_throw safe_limit (amount u) = Inr m) \<longrightarrow>
            importFileWithRealTime parse_good_and_bad_date (amount_or_throw safe_limit) sample_dparse
              (reconcileTransactions sample_cfg sample_day sample_sim) ''one'' ''data.qif''
              (Some ''MM/dd/yy'') None [] = (Inl RangeError, [])"
      using date_normalization [where ?a2i = "amount_or_throw safe_limit" and t = tx_bad_date
        and n = 500 and dateFormat = "Some ''MM/dd/yy''" and dparse = sample_dparse
        and pf = parse_good_and_bad_date and filepath = "''data.qif''" and opts = None
        and rc = "reconcileTransactions sample_cfg sample_day sample_sim"
        and accountId = "''one''" and ledger = "[]"] b
      by blast
    moreover have "\<forall>u \<in> set [tx_good, tx_bad_date]. \<exists>m. amount_or_throw safe_limit (amount u) = Inr m"
      using a b by simp
    ultimately show ?thesis using e ts by simp
  qed
  ultimately show ?thesis by blast
qed

text \<open>
  C7 as stated fails: a file of one record that fits the pattern and one that does not
  yields no result at all, rather than one error entry and one reconciled transaction.
\<close>

theorem date_failure_counterexample:
  "importFileWithRealTime parse_good_and_bad_date (amount_or_throw safe_limit) sample_dparse
     (reconcileTransactions sample_cfg sample_day sample_sim) ''one'' ''data.qif''
     (Some ''MM/dd/yy'') None [] = (Inl RangeError, [])"
  by code_simp

section \<open>The driver: parse errors\<close>

text \<open>
  C10, as the driver has it. When parsing returns a non-empty error list, the outcome is
  settled by the conversion of amounts and dates, which comes first: when it throws, the
  call fails with that exception; when it completes, the call returns the error list with
  nothing added. In both cases the ledger is left as it was, and \<^verbatim>\<open>reconcileTransactions\<close>
  is never called: the outcome is the same for any other \<open>rc'\<close>.
\<close>

theorem errors_block_reconcile:
  assumes "errors (pf filepath opts) \<noteq> []"
  shows "(\<forall>e. normalize_all a2i dparse dateFormat (transactions (pf filepath opts)) = Inl e \<longrightarrow>
            importFileWithRealTime pf a2i dparse rc accountId filepath dateFormat opts ledger =
              (Inl e, ledger)) \<and>
         (\<forall>txs. normalize_all a2i dparse dateFormat (transactions (pf filepath opts)) = Inr txs \<longrightarrow>
            importFileWithRealTime pf a2i dparse rc accountId filepath dateFormat opts ledger =
              (Inr \<lparr>result_errors = errors (pf filepath opts), result_added = []\<rparr>, ledger)) \<and>
         importFileWithRealTime pf a2i dparse rc accountId filepath dateFormat opts ledger =
           importFileWithRealTime pf a2i dparse rc' accountId filepath dateFormat opts ledger"
proof (cases "normalize_all a2i dparse dateFormat (transactions (pf filepath opts))")
  case (Inl e)
  then show ?thesis by (simp add: importFileWithRealTime_def Let_def)
next
  case (Inr txs)
  then show ?thesis using assms by (simp add: importFileWithRealTime_def Let_def)
qed

text \<open>
  C10 at a parser result that holds an error and a valid transaction, and at one that holds
  an error and a transaction whose date does not fit the pattern.
\<close>

theorem errors_block_reconcile_witness:
  "importFileWithRealTime parse_error_and_good (amount_or_throw safe_limit) sample_dparse
     (reconcileTransactions sample_cfg sample_day sample_sim) ''one'' ''data.qif''
     (Some ''MM/dd/yy'') None [] =
     (Inr \<lparr>result_errors = [sample_error], result_added = []\<rparr>, []) \<and>
   importFileWithRealTime parse_error_and_bad_date (amount_or_throw safe_limit) sample_dparse
     (reconcileTransactions sample_cfg sample_day sample_sim) ''one'' ''data.qif''
     (Some ''MM/dd/yy'') None [] = (Inl RangeError, [])"
proof -
  have e: "errors (parse_error_and_good ''data.qif'' None) \<noteq> []"
    "errors (parse_error_and_bad_date ''data.qif'' None) \<noteq> []"
    by (simp_all add: parse_error_and_good_def parse_error_and_bad_date_def)
  have e': "errors (parse_error_and_good ''data.qif'' None) = [sample_error]"
    by (simp add: parse_error_and_good_def)
  have n: "normalize_all (amount_or_throw safe_limit) sample_dparse (Some ''MM/dd/yy'')
      (transactions (parse_error_and_good ''data.qif'' None)) =
      Inr (Some [\<lparr>amount = - 1234, date = ''2020-01-02'', payee_name = ''Grocer'',
      imported_payee = ''GROCER 12'', tx_notes = Some ''weekly'', imported_id = None\<rparr>])"
    by code_simp
  have b: "normalize_all (amount_or_throw safe_limit) sample_dparse (Some ''MM/dd/yy'')
      (transactions (parse_error_and_bad_date ''data.qif'' None)) = Inl RangeError"
    by code_simp
  have "importFileWithRealTime parse_error_and_good (amount_or_throw safe_limit) sample_dparse
     (reconcileTransactions sample_cfg sample_day sample_sim) ''one'' ''data.qif''
     (Some ''MM/dd/yy'') None [] =
     (Inr \<lparr>result_errors = [sample_error], result_added = []\<rparr>, [])"
    using errors_block_reconcile [where pf = parse_error_and_good and filepath = "''data.qif''"
        and opts = None and ?a2i = "amount_or_throw safe_limit" and dparse = sample_dparse
        and rc = "reconcileTransactions sample_cfg sample_day sample_sim" and accountId = "''one''"
        and dateFormat = "Some ''MM/dd/yy''" and ledger = "[]", OF e(1)] n e'
    by simp
  moreover have "importFileWithRealTime parse_error_and_bad_date (amount_or_throw safe_limit)
     sample_dparse (reconcileTransactions sample_cfg sample_day sample_sim) ''one'' ''data.qif''
     (Some ''MM/dd/yy'') None [] = (Inl RangeError, [])"
    using errors_block_reconcile [where pf = parse_error_and_bad_date and filepath = "''data.qif''"
        and opts = None and ?a2i = "amount_or_throw safe_limit" and dparse = sample_dparse
        and rc = "reconcileTransactions sample_cfg sample_day sample_sim" and accountId = "''one''"
        and dateFormat = "Some ''MM/dd/yy''" and ledger = "[]", OF e(2)] b
    by simp
  ultimately show ?thesis by simp
qed

text \<open>
  C10 as stated fails where the conversion throws before the error list is looked at: the
  parser reports an error and a transaction whose date does not fit the pattern, and the
  call ends with the exception instead of returning the error list.
\<close>

theorem errors_block_reconcile_counterexample:
  "errors (parse_error_and_bad_date ''data.qif'' None) = [sample_error] \<and>
   importFileWithRealTime parse_error_and_bad_date (amount_or_throw safe_limit) sample_dparse
     (reconcileTransactions sample_cfg sample_day sample_sim) ''one'' ''data.qif''
     (Some ''MM/dd/yy'') None [] = (Inl RangeError, [])"
  by code_simp

text \<open>
  C2, as the driver has it. When the conversion of amounts and dates completes, a batch
  with a non-empty error list returns the errors with nothing added and leaves the ledger
  as it was: the valid records next to a malformed one are not reconciled. The converted
  records are reconciled, and what was added is returned, only when the error list is empty.
\<close>

theorem partial_batch_not_reconciled:
  "(\<forall>txs. errors (pf filepath opts) \<noteq> [] \<and>
      normalize_all a2i dparse dateFormat (transactions (pf filepath opts)) = Inr txs \<longrightarrow>
      importFileWithRealTime pf a2i dparse rc accountId filepath dateFormat opts ledger =
        (Inr \<lparr>result_errors = errors (pf filepath opts), result_added = []\<rparr>, ledger)) \<and>
   (\<forall>txs res ledger'. errors (pf filepath opts) = [] \<and>
      normalize_all a2i dparse dateFormat (transactions (pf filepath opts)) = Inr txs \<and>
      rc accountId txs ledger = (Inr res, ledger') \<longrightarrow>
      importFileWithRealTime pf a2i dparse rc accountId filepath dateFormat opts ledger =
        (Inr \<lparr>result_errors = [], result_added = added res\<rparr>, ledger'))"
proof (cases "normalize_all a2i dparse dateFormat (transactions (pf filepath opts))")
  case (Inl e)
  then show ?thesis by simp
next
  case (Inr txs)
  then show ?thesis by (auto simp: importFileWithRealTime_def Let_def)
qed

text \<open>
  C2 at a batch with an error next to a valid transaction, and at the same batch without
  the error.
\<close>

theorem partial_batch_not_reconciled_witness:
  "importFileWithRealTime parse_error_and_good (amount_or_throw safe_limit) sample_dparse
     (reconcileTransactions sample_cfg sample_day sample_sim) ''one'' ''data.qif''
     (Some ''MM/dd/yy'') None [] =
     (Inr \<lparr>result_errors = [sample_error], result_added = []\<rparr>, []) \<and>
   importFileWithRealTime parse_good_only (amount_or_throw safe_limit) sample_dparse
     (reconcileTransactions sample_cfg sample_day sample_sim) ''one'' ''data.qif''
     (Some ''MM/dd/yy'') None [] =
     (Inr \<lparr>result_errors = [], result_added = [1]\<rparr>,
      [new_row 1 ''one'' (Fingerprint ''one'' ''2020-01-02'' (- 1234) ''Grocer'' 0)
         \<lparr>amount = - 1234, date = ''2020-01-02'', payee_name = ''Grocer'',
          imported_payee = ''GROCER 12'', tx_notes = Some ''weekly'', imported_id = None\<rparr>])"
proof -
  have e: "errors (parse_error_and_good ''data.qif'' None) \<noteq> []"
    by (simp add: parse_error_and_good_def)
  have e': "errors (parse_error_and_good ''data.qif'' None) = [sample_error]"
    by (simp add: parse_error_and_good_def)
  have g: "errors (parse_good_only ''data.qif'' None) = []"
    by (simp add: parse_good_only_def)
  have m: "normalize_all (amount_or_throw safe_limit) sample_dparse (Some ''MM/dd/yy'')
      (transactions (parse_error_and_good ''data.qif'' None)) =
      Inr (Some [\<lparr>amount = - 1234, date = ''2020-01-02'', payee_name = ''Grocer'',
      imported_payee = ''GROCER 12'', tx_notes = Some ''weekly'', imported_id = None\<rparr>])"
    by code_simp
  have n: "normalize_all (amount_or_throw safe_limit) sample_dparse (Some ''MM/dd/yy'')
      (transactions (parse_good_only ''data.qif'' None)) =
      Inr (Some [\<lparr>amount = - 1234, date = ''2020-01-02'', payee_name = ''Grocer'',
      imported_payee = ''GROCER 12'', tx_notes = Some ''weekly'', imported_id = None\<rparr>])"
    by code_simp
  have r: "reconcileTransactions sample_cfg sample_day sample_sim ''one''
      (Some [\<lparr>amount = - 1234, date = ''2020-01-02'', payee_name = ''Grocer'',
      imported_payee = ''GROCER 12'', tx_notes = Some ''weekly'', imported_id = None\<rparr>]) [] =
      (Inr \<lparr>added = [1], updated = []\<rparr>,
       [new_row 1 ''one'' (Fingerprint ''one'' ''2020-01-02'' (- 1234) ''Grocer'' 0)
         \<lparr>amount = - 1234, date = ''2020-01-02'', payee_name = ''Grocer'',
          imported_payee = ''GROCER 12'', tx_notes = Some ''weekly'', imported_id = None\<rparr>])"
    by code_simp
  have "importFileWithRealTime parse_error_and_good (amount_or_throw safe_limit) sample_dparse
     (reconcileTransactions sample_cfg sample_day sample_sim) ''one'' ''data.qif''
     (Some ''MM/dd/yy'') None [] =
     (Inr \<lparr>result_errors = [sample_error], result_added = []\<rparr>, [])"
    using partial_batch_not_reconciled [of parse_error_and_good "''data.qif''" None
        "amount_or_throw safe_limit" sample_dparse "Some ''MM/dd/yy''"
        "reconcileTransactions sample_cfg sample_day sample_sim" "''one''" "[]"] e e' m
    by simp
  moreover have "importFileWithRealTime parse_good_only (amount_or_throw safe_limit) sample_dparse
     (reconcileTransactions sample_cfg sample_day sample_sim) ''one'' ''data.qif''
     (Some ''MM/dd/yy'') None [] =
     (Inr \<lparr>result_errors = [], result_added = [1]\<rparr>,
      [new_row 1 ''one'' (Fingerprint ''one'' ''2020-01-02'' (- 1234) ''Grocer'' 0)
         \<lparr>amount = - 1234, date = ''2020-01-02'', payee_name = ''Grocer'',
          imported_payee = ''GROCER 12'', tx_notes = Some ''weekly'', imported_id = None\<rparr>])"
    using partial_batch_not_reconciled [of parse_good_only "''data.qif''" None
        "amount_or_throw safe_limit" sample_dparse "Some ''MM/dd/yy''"
        "reconcileTransactions sample_cfg sample_day sample_sim" "''one''" "[]"] g n r
    by simp
  ultimately show ?thesis by simp
qed

text \<open>
  C2 as stated fails: the batch holds a reported error and a valid transaction, and the
  valid transaction is not added, though alone it is.
\<close>

theorem partial_batch_counterexample:
  "importFileWithRealTime parse_error_and_good (amount_or_throw safe_limit) sample_dparse
     (reconcileTransactions sample_cfg sample_day sample_sim) ''one'' ''data.qif''
     (Some ''MM/dd/yy'') None [] =
     (Inr \<lparr>result_errors = [sample_error], result_added = []\<rparr>, []) \<and>
   fst (importFileWithRealTime parse_good_only (amount_or_throw safe_limit) sample_dparse
     (reconcileTransactions sample_cfg sample_day sample_sim) ''one'' ''data.qif''
     (Some ''MM/dd/yy'') None []) = Inr \<lparr>result_errors = [], result_added = [1]\<rparr>"
  by code_simp

section \<open>Amounts: the round trip\<close>

lemma is_digit_not_special: "is_digit c \<Longrightarrow> c \<noteq> CHR ''-'' \<and> c \<noteq> CHR ''+'' \<and> c \<noteq> CHR ''.''"
  by (auto simp: is_digit_def)

lemma digits_not_Nil: "digits n \<noteq> []"
  using length_digits_pos [of n] by auto

lemma takeWhile_digits: "list_all is_digit xs \<Longrightarrow> takeWhile (\<lambda>c. c \<noteq> CHR ''.'') (xs @ CHR ''.'' # ys) = xs"
  by (induction xs) (auto dest: is_digit_not_special)

lemma dropWhile_digits: "list_all is_digit xs \<Longrightarrow> dropWhile (\<lambda>c. c \<noteq> CHR ''.'') (xs @ CHR ''.'' # ys) = CHR ''.'' # ys"
  by (induction xs) (auto dest: is_digit_not_special)

lemma split_sign_digits:
  "list_all is_digit xs \<Longrightarrow> xs \<noteq> [] \<Longrightarrow> split_sign (xs @ ys) = (False, xs @ ys)"
  by (cases xs) (auto simp: split_sign_def dest: is_digit_not_special)

lemma split_sign_minus: "split_sign (CHR ''-'' # xs) = (True, xs)"
  by (simp add: split_sign_def)

lemma nat_of_digits_Nil: "nat_of_digits [] = 0"
  by (simp add: nat_of_digits_def)

lemma nat_of_digits_zero_Cons: "nat_of_digits (CHR ''0'' # s) = nat_of_digits s"
  by (simp add: nat_of_digits_def digit_val_def)

lemma nat_of_digits_zeros: "nat_of_digits (replicate k (CHR ''0'') @ s) = nat_of_digits s"
  by (induction k) (simp_all add: nat_of_digits_zero_Cons)

lemma nat_of_digits_pad: "nat_of_digits (pad_left k s) = nat_of_digits s"
  by (simp add: pad_left_def nat_of_digits_zeros)

lemma integerToAmount_parts:
  "fst (split_sign (integerToAmount n)) = (n < 0) \<and>
   int_part (integerToAmount n) = digits (nat \<bar>n\<bar> div 100) \<and>
   frac_part (integerToAmount n) = Some (pad_left 2 (digits (nat \<bar>n\<bar> mod 100)))"
proof -
  let ?q = "digits (nat \<bar>n\<bar> div 100)"
  let ?r = "pad_left 2 (digits (nat \<bar>n\<bar> mod 100))"
  have q: "list_all is_digit ?q" "?q \<noteq> []" by (simp_all add: digits_all_digit digits_not_Nil)
  have body: "snd (split_sign (integerToAmount n)) = ?q @ CHR ''.'' # ?r \<and>
      fst (split_sign (integerToAmount n)) = (n < 0)"
  proof (cases "n < 0")
    case True
    then show ?thesis by (simp add: integerToAmount_def split_sign_minus)
  next
    case False
    then show ?thesis using split_sign_digits [OF q, of "CHR ''.'' # ?r"]
      by (simp add: integerToAmount_def)
  qed
  then show ?thesis using q(1)
    by (simp add: int_part_def frac_part_def takeWhile_digits dropWhile_digits)
qed

lemma length_pad_cents: "length (pad_left 2 (digits (m mod 100))) = 2"
proof -
  have "m mod 100 < 10 ^ 2" by simp
  then show ?thesis using padded_digits [of 2 "m mod 100"] by simp
qed

lemma numeric_integerToAmount: "numeric (integerToAmount n)"
proof -
  have "length (pad_left 2 (digits (nat \<bar>n\<bar> mod 100))) = 2"
    by (rule length_pad_cents)
  then have "pad_left 2 (digits (nat \<bar>n\<bar> mod 100)) \<noteq> []" by auto
  then show ?thesis
    by (simp add: numeric_def integerToAmount_parts digits_all_digit digits_not_Nil
        pad_left_all_digit)
qed

lemma frac_digits_integerToAmount:
  "frac_digits (integerToAmount n) = pad_left 2 (digits (nat \<bar>n\<bar> mod 100))"
  by (simp add: frac_digits_def integerToAmount_parts)

lemma decimal_value_integerToAmount: "decimal_value (integerToAmount n) = of_int n / 100"
proof -
  let ?m = "nat \<bar>n\<bar>"
  let ?sg = "if n < 0 then - 1 else (1 :: rat)"
  have eq: "(of_nat (?m div 100) + of_nat (?m mod 100) / 100 :: rat) = of_nat ?m / 100"
  proof -
    have "(of_nat ?m :: rat) = of_nat (100 * (?m div 100) + ?m mod 100)" by simp
    also have "\<dots> = 100 * of_nat (?m div 100) + of_nat (?m mod 100)"
      by (simp only: of_nat_add of_nat_mult of_nat_numeral)
    finally show ?thesis by simp
  qed
  have "decimal_value (integerToAmount n) =
      ?sg * (of_nat (nat_of_digits (digits (?m div 100))) +
        of_nat (nat_of_digits (pad_left 2 (digits (?m mod 100)))) / 10 ^ 2)"
    unfolding decimal_value_def
    by (simp only: integerToAmount_parts frac_digits_integerToAmount length_pad_cents)
  also have "\<dots> = ?sg * (of_nat (?m div 100) + of_nat (?m mod 100) / 100)"
    by (simp only: nat_of_digits_digits nat_of_digits_pad) simp
  also have "\<dots> = ?sg * (of_nat ?m / 100)"
    by (simp only: eq)
  also have "\<dots> = of_int n / 100"
    by (cases "n < 0") (simp_all add: of_nat_nat abs_if)
  finally show ?thesis .
qed

lemma cents_of_short_fraction:
  assumes "length f \<le> 2"
  shows "(of_nat (nat_of_digits (take 2 (f @ ''00''))) :: rat) =
         of_nat (nat_of_digits f) / 10 ^ length f * 100"
proof -
  consider "f = []" | a where "f = [a]" | a b where "f = [a, b]"
  proof (cases f)
    case Nil
    then show ?thesis using that by simp
  next
    case (Cons a g)
    show ?thesis
    proof (cases g)
      case Nil
      then show ?thesis using Cons that by simp
    next
      case (Cons b h)
      then have "h = []" using assms \<open>f = a # g\<close> by simp
      then show ?thesis using Cons \<open>f = a # g\<close> that by simp
    qed
  qed
  then show ?thesis
  proof cases
    case 1
    then show ?thesis by (simp add: nat_of_digits_def digit_val_def)
  next
    case 2
    then show ?thesis by (simp add: nat_of_digits_def digit_val_def)
  next
    case 3
    then show ?thesis by (simp add: nat_of_digits_def)
  qed
qed

lemma minor_units_short:
  assumes "length (frac_digits s) \<le> 2"
  shows "(of_nat (minor_units s) :: rat) =
         (of_nat (nat_of_digits (int_part s)) +
          of_nat (nat_of_digits (frac_digits s)) / 10 ^ length (frac_digits s)) * 100"
proof -
  have "minor_units s =
      nat_of_digits (int_part s) * 100 + nat_of_digits (take 2 (frac_digits s @ ''00''))"
    using assms by (simp add: minor_units_def Let_def)
  then have "(of_nat (minor_units s) :: rat) =
      of_nat (nat_of_digits (int_part s)) * 100 +
      of_nat (nat_of_digits (take 2 (frac_digits s @ ''00'')))"
    by (simp only: of_nat_add of_nat_mult of_nat_numeral)
  then show ?thesis
    by (simp only: cents_of_short_fraction [OF assms] distrib_right)
qed

lemma minor_units_integerToAmount: "minor_units (integerToAmount n) = nat \<bar>n\<bar>"
proof -
  let ?p = "pad_left 2 (digits (nat \<bar>n\<bar> mod 100))"
  have l: "length ?p = 2" by (rule length_pad_cents)
  then have "take 2 (?p @ ''00'') = ?p" by simp
  then show ?thesis
    using l
    by (simp add: minor_units_def Let_def frac_digits_integerToAmount integerToAmount_parts
        nat_of_digits_digits nat_of_digits_pad)
qed

lemma amountToInteger_integerToAmount:
  assumes "\<bar>n\<bar> \<le> limit"
  shows "amountToInteger limit (integerToAmount n) = Some n"
proof -
  have "(if fst (split_sign (integerToAmount n)) then - int (minor_units (integerToAmount n))
         else int (minor_units (integerToAmount n))) = n"
    by (simp add: integerToAmount_parts minor_units_integerToAmount)
  then show ?thesis using assms
    by (simp add: amountToInteger_def numeric_integerToAmount Let_def)
qed

text \<open>
  C6, at the fixed scale. A numeric string with at most two fractional digits, whose count
  of minor units does not exceed the limit, is converted to that count (the integer \<open>n\<close>
  with \<open>n = 100 * value\<close>), and the reformatted count is a numeric string of the same
  decimal value, which converts back to the same count.
\<close>

theorem amount_round_trip:
  assumes "numeric s" "length (frac_digits s) \<le> 2" "int (minor_units s) \<le> limit"
  shows "\<exists>n. amountToInteger limit s = Some n \<and> of_int n = decimal_value s * 100 \<and>
           numeric (integerToAmount n) \<and>
           decimal_value (integerToAmount n) = decimal_value s \<and>
           amountToInteger limit (integerToAmount n) = Some n"
proof -
  let ?n = "if fst (split_sign s) then - int (minor_units s) else int (minor_units s)"
  have abs: "\<bar>?n\<bar> \<le> limit" using assms(3) by simp
  then have a: "amountToInteger limit s = Some ?n"
    using assms(1) by (simp add: amountToInteger_def Let_def)
  have v: "(of_int ?n :: rat) = decimal_value s * 100"
    using minor_units_short [OF assms(2)] by (simp add: decimal_value_def)
  have "decimal_value (integerToAmount ?n) = of_int ?n / 100"
    by (rule decimal_value_integerToAmount)
  then have r: "decimal_value (integerToAmount ?n) = decimal_value s"
    by (simp only: v)
  show ?thesis
    using a v r numeric_integerToAmount [of ?n] amountToInteger_integerToAmount [OF abs]
    by blast
qed

text \<open>C6 at \<^verbatim>\<open>-12.34\<close>, which is \<^verbatim>\<open>-1234\<close> minor units and is reproduced literally.\<close>

theorem amount_round_trip_witness:
  "amountToInteger safe_limit ''-12.34'' = Some (- 1234) \<and>
   integerToAmount (- 1234) = ''-12.34'' \<and>
   decimal_value (integerToAmount (- 1234)) = decimal_value ''-12.34''"
proof -
  have h: "numeric ''-12.34''" "length (frac_digits ''-12.34'') \<le> 2"
    "int (minor_units ''-12.34'') \<le> safe_limit"
    by code_simp+
  have a: "amountToInteger safe_limit ''-12.34'' = Some (- 1234)" by code_simp
  have f: "integerToAmount (- 1234) = ''-12.34''" by code_simp
  from amount_round_trip [OF h] a
  have "decimal_value (integerToAmount (- 1234)) = decimal_value ''-12.34''" by simp
  with a f show ?thesis by simp
qed

text \<open>
  C6 as stated fails on a numeric string with a third fractional digit: \<^verbatim>\<open>12.345\<close> is
  converted to a count of minor units, and the count reformats to another decimal value.
\<close>

theorem amount_round_trip_counterexample:
  "numeric ''12.345'' \<and> amountToInteger safe_limit ''12.345'' = Some 1235 \<and>
   integerToAmount 1235 = ''12.35'' \<and>
   decimal_value (integerToAmount 1235) \<noteq> decimal_value ''12.345''"
  by code_simp

text \<open>
  No other way of dropping the third digit would help: no count of minor units reformats
  to the value of \<^verbatim>\<open>12.345\<close>.
\<close>

lemma no_count_for_sub_cent: "decimal_value (integerToAmount n) \<noteq> decimal_value ''12.345''"
proof -
  have v: "decimal_value ''12.345'' = 2469 / 200" by code_simp
  show ?thesis
  proof
    assume "decimal_value (integerToAmount n) = decimal_value ''12.345''"
    then have "(of_int n :: rat) / 100 = 2469 / 200"
      by (simp only: decimal_value_integerToAmount v)
    then have "(of_int (2 * n) :: rat) = of_int 2469" by simp
    then have "2 * n = 2469" by (simp only: of_int_eq_iff)
    then show False by presburger
  qed
qed

section \<open>Format detection\<close>

lemma extension_append: "CHR ''.'' \<notin> set e \<Longrightarrow> extension (base @ ''.'' @ e) = Some e"
proof -
  assume e: "CHR ''.'' \<notin> set e"
  have "rev (base @ ''.'' @ e) = rev e @ CHR ''.'' # rev base" by simp
  moreover have "takeWhile (\<lambda>c. c \<noteq> CHR ''.'') (rev e @ CHR ''.'' # rev base) = rev e"
    using e by (subst takeWhile_append2) auto
  ultimately show ?thesis by (simp add: extension_def)
qed

lemma detect_format_None:
  assumes "\<forall>e. extension name = Some e \<longrightarrow> map to_lower e \<notin> {''qif'', ''ofx'', ''qfx'', ''xml''}"
  shows "detect_format name = None"
proof (cases "extension name")
  case None
  then show ?thesis by (simp add: detect_format_def)
next
  case (Some e)
  then have "map to_lower e \<notin> {''qif'', ''ofx'', ''qfx'', ''xml''}" using assms by simp
  then show ?thesis using Some by (simp add: detect_format_def Let_def)
qed

lemma normalize_all_empty: "normalize_all a2i dparse dateFormat (Some []) = Inr (Some [])"
  by (simp add: normalize_all_def)

text \<open>
  C3. A file name whose extension is none of the supported ones (or that has none) yields
  exactly one error, with the message \<^verbatim>\<open>Invalid file type\<close>, an empty added list, and
  the ledger as it was.
\<close>

theorem unsupported_extension:
  assumes "\<forall>e. extension name = Some e \<longrightarrow> map to_lower e \<notin> {''qif'', ''ofx'', ''qfx'', ''xml''}"
  shows "import_file parsers clean limit dparse cfg day_of sim accountId name dateFormat opts ledger =
           (Inr \<lparr>result_errors = [\<lparr>message = ''Invalid file type'', source_ref = []\<rparr>],
                 result_added = []\<rparr>, ledger)"
proof -
  have "parseFile parsers clean name opts =
      \<lparr>errors = [\<lparr>message = ''Invalid file type'', source_ref = []\<rparr>], transactions = Some []\<rparr>"
    using detect_format_None [OF assms] by (simp add: parseFile_def)
  then show ?thesis
    by (simp add: import_file_def importFileWithRealTime_def normalize_all_empty)
qed

text \<open>C3 at \<^verbatim>\<open>foo.txt\<close>.\<close>

theorem unsupported_extension_witness:
  "import_file sample_parsers keep_text safe_limit sample_dparse sample_cfg sample_day sample_sim
     ''one'' ''foo.txt'' None None [] =
     (Inr \<lparr>result_errors = [\<lparr>message = ''Invalid file type'', source_ref = []\<rparr>],
           result_added = []\<rparr>, [])"
proof -
  have e: "extension ''foo.txt'' = Some ''txt''" by code_simp
  have "map to_lower ''txt'' \<notin> {''qif'', ''ofx'', ''qfx'', ''xml''}" by code_simp
  with e have "\<forall>e. extension ''foo.txt'' = Some e \<longrightarrow>
      map to_lower e \<notin> {''qif'', ''ofx'', ''qfx'', ''xml''}" by simp
  then show ?thesis by (rule unsupported_extension)
qed

text \<open>
  C5. Whatever stands before the last dot of the file name, an extension that is a supported
  one up to the case of its letters selects the parser of that format; and when that parser
  reports no error and the records convert (valid content), the import returns no error and
  goes on to reconcile the records.
\<close>

theorem extension_selects_parser:
  assumes "CHR ''.'' \<notin> set e"
    and "(map to_lower e, fmt) \<in> {(''qif'', QIF), (''ofx'', OFX), (''qfx'', QFX), (''xml'', CAMT)}"
  shows "detect_format (base @ ''.'' @ e) = Some fmt \<and>
         (\<forall>txs. p_errors (parsers fmt (base @ ''.'' @ e)) = [] \<and>
            map_trans (normalize_trans (amount_or_throw limit) dparse dateFormat)
              (map (to_trans clean (notes_enabled opts)) (p_records (parsers fmt (base @ ''.'' @ e))))
              = Inr txs \<longrightarrow>
            import_file parsers clean limit dparse cfg day_of sim accountId (base @ ''.'' @ e)
              dateFormat opts ledger =
              (Inr \<lparr>result_errors = [],
                    result_added = added_ids (reconcile_batch cfg day_of sim accountId txs ledger)\<rparr>,
               snd (reconcileTransactions cfg day_of sim accountId (Some txs) ledger)))"
proof -
  have x: "extension (base @ ''.'' @ e) = Some e"
    using assms(1) by (rule extension_append)
  have l: "detect_format (base @ ''.'' @ e) =
      (if map to_lower e = ''qif'' then Some QIF
       else if map to_lower e = ''ofx'' then Some OFX
       else if map to_lower e = ''qfx'' then Some QFX
       else if map to_lower e = ''xml'' then Some CAMT
       else None)"
    by (simp only: detect_format_def x option.case Let_def)
  consider "map to_lower e = ''qif''" "fmt = QIF" | "map to_lower e = ''ofx''" "fmt = OFX"
    | "map to_lower e = ''qfx''" "fmt = QFX" | "map to_lower e = ''xml''" "fmt = CAMT"
    using assms(2) by blast
  then have d: "detect_format (base @ ''.'' @ e) = Some fmt"
  proof cases
    case 1
    show ?thesis unfolding l 1 by simp
  next
    case 2
    show ?thesis unfolding l 2 by simp
  next
    case 3
    show ?thesis unfolding l 3 by simp
  next
    case 4
    show ?thesis unfolding l 4 by simp
  qed
  have "import_file parsers clean limit dparse cfg day_of sim accountId (base @ ''.'' @ e)
              dateFormat opts ledger =
              (Inr \<lparr>result_errors = [],
                    result_added = added_ids (reconcile_batch cfg day_of sim accountId txs ledger)\<rparr>,
               snd (reconcileTransactions cfg day_of sim accountId (Some txs) ledger))"
    if "p_errors (parsers fmt (base @ ''.'' @ e)) = []"
      and "map_trans (normalize_trans (amount_or_throw limit) dparse dateFormat)
              (map (to_trans clean (notes_enabled opts)) (p_records (parsers fmt (base @ ''.'' @ e))))
              = Inr txs" for txs
    using that d
    by (simp add: import_file_def importFileWithRealTime_def parseFile_def Let_def
        normalize_all_def reconcileTransactions_def)
  with d show ?thesis by blast
qed

text \<open>C5 at the two file names of the repository's test.\<close>

theorem extension_selects_parser_witness:
  "detect_format ''best.data-ever$.QFX'' = Some QFX \<and>
   detect_format ''big.data.QiF'' = Some QIF \<and>
   fst (import_file sample_parsers keep_text safe_limit sample_dparse sample_cfg sample_day
     sample_sim ''one'' ''big.data.QiF'' (Some ''MM/dd/yy'') None []) =
     Inr \<lparr>result_errors = [], result_added = [1, 2]\<rparr>"
proof -
  have q: "CHR ''.'' \<notin> set ''QFX''" "CHR ''.'' \<notin> set ''QiF''" by simp_all
  have m: "(map to_lower ''QFX'', QFX) \<in> {(''qif'', QIF), (''ofx'', OFX), (''qfx'', QFX), (''xml'', CAMT)}"
    "(map to_lower ''QiF'', QIF) \<in> {(''qif'', QIF), (''ofx'', OFX), (''qfx'', QFX), (''xml'', CAMT)}"
    by code_simp+
  have e: "p_errors (sample_parsers QIF ''big.data.QiF'') = []"
    by (simp add: sample_parsers_def)
  have n: "map_trans (normalize_trans (amount_or_throw safe_limit) sample_dparse (Some ''MM/dd/yy''))
      (map (to_trans keep_text (notes_enabled None)) (p_records (sample_parsers QIF ''big.data.QiF'')))
      = Inr [\<lparr>amount = - 1234, date = ''2020-01-02'', payee_name = ''Grocer'',
               imported_payee = ''Grocer'', tx_notes = None, imported_id = None\<rparr>,
             \<lparr>amount = - 1234, date = ''2020-01-02'', payee_name = ''Grocer'',
               imported_payee = ''Grocer'', tx_notes = None, imported_id = None\<rparr>]"
    by code_simp
  have a: "added_ids (reconcile_batch sample_cfg sample_day sample_sim ''one''
      [\<lparr>amount = - 1234, date = ''2020-01-02'', payee_name = ''Grocer'',
               imported_payee = ''Grocer'', tx_notes = None, imported_id = None\<rparr>,
             \<lparr>amount = - 1234, date = ''2020-01-02'', payee_name = ''Grocer'',
               imported_payee = ''Grocer'', tx_notes = None, imported_id = None\<rparr>] []) = [1, 2]"
    by code_simp
  have "detect_format ''best.data-ever$.QFX'' = Some QFX"
    using extension_selects_parser [OF q(1) m(1), of "''best.data-ever$''"] by simp
  moreover have "detect_format ''big.data.QiF'' = Some QIF"
    using extension_selects_parser [OF q(2) m(2), of "''big.data''"] by simp
  moreover have "fst (import_file sample_parsers keep_text safe_limit sample_dparse sample_cfg
     sample_day sample_sim ''one'' ''big.data.QiF'' (Some ''MM/dd/yy'') None []) =
     Inr \<lparr>result_errors = [], result_added = [1, 2]\<rparr>"
    using extension_selects_parser [OF q(2) m(2), of "''big.data''" sample_parsers safe_limit
        sample_dparse "Some ''MM/dd/yy''" keep_text None sample_cfg sample_day sample_sim
        "''one''" "[]"] e n a
    by simp
  ultimately show ?thesis by simp
qed

section \<open>Properties of the import keys\<close>



lemma assign_ids_source:
  "i < length ts \<Longrightarrow> imported_id (ts ! i) = Some u \<Longrightarrow> fst (assign_ids a seen ts ! i) = SourceId u"
proof (induction ts arbitrary: seen i)
  case Nil
  then show ?case by simp
next
  case (Cons t ts)
  show ?case
  proof (cases i)
    case 0
    then show ?thesis using Cons.prems by simp
  next
    case (Suc j)
    then show ?thesis using Cons.prems Cons.IH [of j]
      by (cases "imported_id t") (simp_all add: Let_def)
  qed
qed





section \<open>One step of the reconciliation\<close>

















section \<open>Importing the same file again\<close>















section \<open>Inserted rows\<close>









section \<open>Identical transactions\<close>




end
